theory Spec2Isabelle
  imports Main
begin

section \<open>The video controller of video\_social\<close>

text \<open>
  A shallow embedding of \<^verbatim>\<open>src/controllers/video.controller.js\<close>: the six request
  handlers \<^verbatim>\<open>getAllVideos\<close>, \<^verbatim>\<open>publishAVideo\<close>, \<^verbatim>\<open>getVideoById\<close>,
  \<^verbatim>\<open>updateVideo\<close>, \<^verbatim>\<open>deleteVideo\<close> and \<^verbatim>\<open>togglePublishStatus\<close>.

  Every handler is a function from the request and the state of the world (the database
  collections, the assets held by the storage provider, and the sequence of calls made to
  the collaborators so far) to a result and the new state of the world. A thrown error is
  the left summand of the result, the response passed to \<^verbatim>\<open>res.json\<close> the right one.
\<close>

subsection \<open>Documents\<close>

text \<open>An ObjectId, kept abstract: only equality of identifiers matters to the handlers.\<close>

type_synonym objectid = nat

text \<open>
  An argument handed to mongoose's \<^verbatim>\<open>isValidObjectId\<close>: either a string that mongoose
  accepts as an ObjectId, together with the ObjectId it is cast to, or any other string.
  Which strings are accepted is mongoose's decision and is taken as part of the input:
  \<^verbatim>\<open>!isValidObjectId(videoId)\<close> is the case \<open>NotAnId\<close> in the handlers.
\<close>

datatype idarg = ObjectIdOf objectid | NotAnId

record media =
  url :: string
  public_id :: string

text \<open>
  Modelled from the spec: the Video, User, Like and Comment schemas
  (\<^verbatim>\<open>models/*.models.js\<close>) are imported by the controller but are not among the sources.
  The fields are those of the spec's data model (section 3) and those the controller reads
  and writes. The \<^verbatim>\<open>_id\<close> of a document is the key under which its collection holds it.
\<close>

record video =
  title :: string
  description :: string
  duration :: "int option"
  videoFile :: media
  thumbnail :: media
  views :: int
  isPublished :: bool
  owner :: "objectid option"
  createdAt :: nat

record user =
  username :: string
  avatar_url :: string
  watchHistory :: "objectid list"

record like =
  like_video :: objectid
  likedBy :: objectid

record comment =
  comment_video :: objectid
  content :: string

record subscription =
  channel :: objectid
  subscriber :: objectid

subsection \<open>Errors and responses\<close>

text \<open>
  Modelled from the spec: \<^verbatim>\<open>utils/ApiError.js\<close> and \<^verbatim>\<open>utils/ApiResponse.js\<close> are not among
  the sources. An \<^verbatim>\<open>ApiError\<close> carries the HTTP status and the message it is constructed
  with; the response envelope is \<^verbatim>\<open>{statusCode, data, message, success}\<close> (spec, section 6).
  \<open>TypeError\<close> is the error the JavaScript runtime throws when a property of
  \<^verbatim>\<open>undefined\<close> is read; \<open>ValidationError\<close> is the one mongoose throws when a document
  to be created misses a required path.
\<close>

datatype error = ApiError nat string | TypeError string | ValidationError string

record 'a response =
  statusCode :: nat
  data :: 'a
  message :: string
  success :: bool

definition ApiResponse :: "nat \<Rightarrow> 'a \<Rightarrow> string \<Rightarrow> 'a response" where
  "ApiResponse code d msg =
     \<lparr>statusCode = code, data = d, message = msg, success = (code < 400)\<rparr>"

subsection \<open>The world: collections, stored assets, calls made\<close>

datatype call =
    Upload string
  | Destroy string
  | VideoAggregatePaginate
  | VideoCreate
  | VideoFindById objectid
  | VideoAggregate objectid
  | VideoFindByIdAndUpdate objectid
  | VideoFindByIdAndDelete objectid
  | UserFindByIdAndUpdate objectid
  | LikeDeleteMany objectid
  | CommentDeleteMany objectid

record world =
  videos :: "(objectid \<times> video) list"
  users :: "(objectid \<times> user) list"
  likes :: "like list"
  comments :: "comment list"
  subscriptions :: "subscription list"
  assets :: "string list"
  clock :: nat
  trace :: "call list"

definition log_call :: "call \<Rightarrow> world \<Rightarrow> world" where
  "log_call c w = w\<lparr>trace := trace w @ [c]\<rparr>"

text \<open>
  An asynchronous computation of the handler: it runs on the world and either throws or
  returns a value. \<open>await m f\<close> is \<^verbatim>\<open>const x = await m; f(x)\<close>: an error thrown by
  \<open>m\<close> ends the handler.
\<close>

type_synonym 'a io = "world \<Rightarrow> (error + 'a) \<times> world"

definition respond :: "'a \<Rightarrow> 'a io" where
  "respond x w = (Inr x, w)"

definition throw :: "error \<Rightarrow> 'a io" where
  "throw e w = (Inl e, w)"

definition await :: "'a io \<Rightarrow> ('a \<Rightarrow> 'b io) \<Rightarrow> 'b io" where
  "await m f w = (case m w of (Inl e, w') \<Rightarrow> (Inl e, w') | (Inr x, w') \<Rightarrow> f x w')"

subsection \<open>The database collaborator\<close>

text \<open>
  A collection is the list of its documents in insertion order, each under its \<^verbatim>\<open>_id\<close>.
  \<open>map_of\<close> is the lookup by \<^verbatim>\<open>_id\<close>; an update or a removal by \<^verbatim>\<open>_id\<close> acts on the
  entries under that key.
\<close>

definition update_doc :: "objectid \<Rightarrow> ('d \<Rightarrow> 'd) \<Rightarrow> (objectid \<times> 'd) list \<Rightarrow> (objectid \<times> 'd) list" where
  "update_doc k f al = map (\<lambda>(k', d). if k' = k then (k', f d) else (k', d)) al"

definition delete_doc :: "objectid \<Rightarrow> (objectid \<times> 'd) list \<Rightarrow> (objectid \<times> 'd) list" where
  "delete_doc k al = filter (\<lambda>(k', d). k' \<noteq> k) al"

definition Video_findById :: "objectid \<Rightarrow> video option io" where
  "Video_findById vid w = (Inr (map_of (videos w) vid), log_call (VideoFindById vid) w)"

text \<open>\<^verbatim>\<open>findByIdAndUpdate\<close> with \<^verbatim>\<open>{new: true}\<close>: the updated document, or null when no
  document has the identifier.\<close>

definition Video_findByIdAndUpdate :: "objectid \<Rightarrow> (video \<Rightarrow> video) \<Rightarrow> video option io" where
  "Video_findByIdAndUpdate vid f w =
     (Inr (map_option f (map_of (videos w) vid)),
      log_call (VideoFindByIdAndUpdate vid) (w\<lparr>videos := update_doc vid f (videos w)\<rparr>))"

definition Video_findByIdAndDelete :: "objectid \<Rightarrow> video option io" where
  "Video_findByIdAndDelete vid w =
     (Inr (map_of (videos w) vid),
      log_call (VideoFindByIdAndDelete vid) (w\<lparr>videos := delete_doc vid (videos w)\<rparr>))"

definition User_findByIdAndUpdate :: "objectid \<Rightarrow> (user \<Rightarrow> user) \<Rightarrow> user option io" where
  "User_findByIdAndUpdate uid f w =
     (Inr (map_of (users w) uid),
      log_call (UserFindByIdAndUpdate uid) (w\<lparr>users := update_doc uid f (users w)\<rparr>))"

definition Like_deleteMany :: "objectid \<Rightarrow> unit io" where
  "Like_deleteMany vid w =
     (Inr (), log_call (LikeDeleteMany vid) (w\<lparr>likes := filter (\<lambda>l. like_video l \<noteq> vid) (likes w)\<rparr>))"

definition Comment_deleteMany :: "objectid \<Rightarrow> unit io" where
  "Comment_deleteMany vid w =
     (Inr (), log_call (CommentDeleteMany vid)
        (w\<lparr>comments := filter (\<lambda>c. comment_video c \<noteq> vid) (comments w)\<rparr>))"

text \<open>The update operators the controller uses.\<close>

definition inc_views :: "int \<Rightarrow> video \<Rightarrow> video" where
  "inc_views n v = v\<lparr>views := views v + n\<rparr>"

definition addToSet :: "'a \<Rightarrow> 'a list \<Rightarrow> 'a list" where
  "addToSet x xs = (if x \<in> set xs then xs else xs @ [x])"

subsection \<open>Aggregation over the video collection\<close>

text \<open>
  The stages \<^verbatim>\<open>getAllVideos\<close> pushes on its pipeline. A document flowing through the
  pipeline is the video with the \<^verbatim>\<open>ownerDetails\<close> the \<^verbatim>\<open>$lookup\<close> adds: the list of
  joined users after \<^verbatim>\<open>$lookup\<close>, the one element it was unwound to after \<^verbatim>\<open>$unwind\<close>.
\<close>

record owner_details =
  od_id :: objectid
  od_username :: string
  od_avatar_url :: string

record agg_doc =
  doc_id :: objectid
  doc :: video
  ownerDetails :: "owner_details list"

datatype stage =
    Search string
  | MatchOwner objectid
  | MatchIsPublished bool
  | Sort string int
  | LookupOwnerDetails
  | UnwindOwnerDetails

text \<open>The value a document is sorted on, in the database's order of types: a missing
  field first, then numbers, strings, identifiers, booleans, dates.\<close>

datatype sortkey = KNull | KNum int | KStr string | KId objectid | KBool bool | KDate nat

fun key_rank :: "sortkey \<Rightarrow> nat" where
  "key_rank KNull = 0"
| "key_rank (KNum n) = 1"
| "key_rank (KStr s) = 2"
| "key_rank (KId i) = 3"
| "key_rank (KBool b) = 4"
| "key_rank (KDate t) = 5"

fun str_le :: "string \<Rightarrow> string \<Rightarrow> bool" where
  "str_le [] ys = True"
| "str_le (x # xs) [] = False"
| "str_le (x # xs) (y # ys) =
     ((of_char x :: nat) < of_char y \<or> (x = y \<and> str_le xs ys))"

fun key_le :: "sortkey \<Rightarrow> sortkey \<Rightarrow> bool" where
  "key_le (KNum a) (KNum b) = (a \<le> b)"
| "key_le (KStr a) (KStr b) = str_le a b"
| "key_le (KId a) (KId b) = (a \<le> b)"
| "key_le (KBool a) (KBool b) = (b \<or> \<not> a)"
| "key_le (KDate a) (KDate b) = (a \<le> b)"
| "key_le a b = (key_rank a \<le> key_rank b)"

definition opt_key :: "('a \<Rightarrow> sortkey) \<Rightarrow> 'a option \<Rightarrow> sortkey" where
  "opt_key k x = (case x of None \<Rightarrow> KNull | Some y \<Rightarrow> k y)"

definition field_key :: "string \<Rightarrow> agg_doc \<Rightarrow> sortkey" where
  "field_key f d =
     (if f = ''_id'' then KId (doc_id d)
      else if f = ''title'' then KStr (title (doc d))
      else if f = ''description'' then KStr (description (doc d))
      else if f = ''duration'' then opt_key KNum (duration (doc d))
      else if f = ''videoFile.url'' then KStr (url (videoFile (doc d)))
      else if f = ''videoFile.public_id'' then KStr (public_id (videoFile (doc d)))
      else if f = ''thumbnail.url'' then KStr (url (thumbnail (doc d)))
      else if f = ''thumbnail.public_id'' then KStr (public_id (thumbnail (doc d)))
      else if f = ''views'' then KNum (views (doc d))
      else if f = ''isPublished'' then KBool (isPublished (doc d))
      else if f = ''owner'' then opt_key KId (owner (doc d))
      else if f = ''createdAt'' then KDate (createdAt (doc d))
      else KNull)"

fun insort_by :: "('a \<Rightarrow> 'a \<Rightarrow> bool) \<Rightarrow> 'a \<Rightarrow> 'a list \<Rightarrow> 'a list" where
  "insort_by le x [] = [x]"
| "insort_by le x (y # ys) = (if le x y then x # y # ys else y # insort_by le x ys)"

definition sort_by :: "('a \<Rightarrow> 'a \<Rightarrow> bool) \<Rightarrow> 'a list \<Rightarrow> 'a list" where
  "sort_by le xs = foldr (insort_by le) xs []"

definition doc_le :: "string \<Rightarrow> int \<Rightarrow> agg_doc \<Rightarrow> agg_doc \<Rightarrow> bool" where
  "doc_le f dir a b =
     (if dir = 1 then key_le (field_key f a) (field_key f b)
      else key_le (field_key f b) (field_key f a))"

text \<open>The \<^verbatim>\<open>$lookup\<close> from \<^verbatim>\<open>users\<close> on \<^verbatim>\<open>owner = _id\<close>, with its inner
  \<^verbatim>\<open>$project\<close> of \<^verbatim>\<open>username\<close> and \<^verbatim>\<open>avatar.url\<close>.\<close>

definition lookup_owner :: "(objectid \<times> user) list \<Rightarrow> objectid option \<Rightarrow> owner_details list" where
  "lookup_owner us ow =
     (case ow of
        None \<Rightarrow> []
      | Some i \<Rightarrow>
          map (\<lambda>(k, u). \<lparr>od_id = k, od_username = username u, od_avatar_url = avatar_url u\<rparr>)
            (filter (\<lambda>(k, u). k = i) us))"

subsection \<open>The storage collaborator\<close>

text \<open>
  Modelled from the spec: \<^verbatim>\<open>utils/cloudinary.js\<close> is not among the sources. The spec
  (section 6) gives \<^verbatim>\<open>upload(localPath)\<close>, which returns the stored asset's URL, storage
  identifier and (for a video) duration, or no result when the upload fails, and
  \<^verbatim>\<open>delete(storageId)\<close>, which succeeds or fails: a delete that succeeds removes the
  asset, one that fails leaves it stored, and either way the outcome is returned to the
  caller.
\<close>

record uploaded =
  up_url :: string
  up_public_id :: string
  up_duration :: "int option"

text \<open>
  What the handlers cannot decide themselves:
  \<^item> \<open>search_index\<close>: the documents the managed full-text index returns for a query;
  \<^item> \<open>cloud_upload\<close>: the outcome of an upload of a local file, given the assets stored;
  \<^item> \<open>cloud_destroy\<close>: whether the provider's delete of a storage identifier succeeds,
    given the assets stored;
  \<^item> \<open>meanwhile\<close>: what the requests served concurrently do to the world while this
    handler is suspended awaiting an upload (the identity when the handler runs alone).
\<close>

record env =
  search_index :: "string \<Rightarrow> agg_doc list \<Rightarrow> agg_doc list"
  cloud_upload :: "string list \<Rightarrow> string \<Rightarrow> uploaded option"
  cloud_destroy :: "string list \<Rightarrow> string \<Rightarrow> bool"
  meanwhile :: "world \<Rightarrow> world"

definition uploadOnCloudinary :: "env \<Rightarrow> string \<Rightarrow> uploaded option io" where
  "uploadOnCloudinary e localPath w =
     (let w1 = meanwhile e (log_call (Upload localPath) w) in
      case cloud_upload e (assets w1) localPath of
        None \<Rightarrow> (Inr None, w1)
      | Some a \<Rightarrow> (Inr (Some a), w1\<lparr>assets := assets w1 @ [up_public_id a]\<rparr>))"

text \<open>The assets stored after a delete of \<open>pid\<close> has been asked for.\<close>

definition remove_asset :: "env \<Rightarrow> string \<Rightarrow> string list \<Rightarrow> string list" where
  "remove_asset e pid stored =
     (if cloud_destroy e stored pid then filter (\<lambda>a. a \<noteq> pid) stored else stored)"

definition deleteOnCloudinary :: "env \<Rightarrow> string \<Rightarrow> bool io" where
  "deleteOnCloudinary e pid w =
     (Inr (cloud_destroy e (assets w) pid),
      log_call (Destroy pid) (w\<lparr>assets := remove_asset e pid (assets w)\<rparr>))"

subsection \<open>Requests\<close>

record upload_file =
  path :: "string option"

record upload_files =
  files_videoFile :: "upload_file list option"
  files_thumbnail :: "upload_file list option"

text \<open>
  The parts of the request the handlers read. An absent field of \<^verbatim>\<open>req.query\<close> or
  \<^verbatim>\<open>req.body\<close> (\<^verbatim>\<open>undefined\<close>) is \<open>None\<close>; \<open>user_id\<close> is \<^verbatim>\<open>req.user?._id\<close>, set by the
  authentication middleware; \<open>req_files\<close> and \<open>req_file\<close> (\<^verbatim>\<open>req.files\<close> and
  \<^verbatim>\<open>req.file\<close>) are set by the multipart middleware. An absent or empty \<^verbatim>\<open>userId\<close> of
  the query, which \<^verbatim>\<open>if (userId)\<close> skips, is \<open>None\<close>.
\<close>

record request =
  query_page :: "string option"
  query_limit :: "string option"
  query_query :: "string option"
  query_sortBy :: "string option"
  query_sortType :: "string option"
  query_userId :: "idarg option"
  body_title :: "string option"
  body_description :: "string option"
  params_videoId :: idarg
  user_id :: "objectid option"
  req_files :: "upload_files option"
  req_file :: "upload_file option"

text \<open>JavaScript truthiness of an optional string: \<^verbatim>\<open>undefined\<close> and \<^verbatim>\<open>""\<close> are falsy.\<close>

fun truthy :: "string option \<Rightarrow> bool" where
  "truthy None = False"
| "truthy (Some s) = (s \<noteq> [])"

text \<open>The string itself when the value is truthy.\<close>

definition truthy_value :: "string option \<Rightarrow> string option" where
  "truthy_value x = (case x of None \<Rightarrow> None | Some s \<Rightarrow> if s = [] then None else Some s)"

text \<open>The comparison \<^verbatim>\<open>video?.owner.toString() !== req.user?._id.toString()\<close>, for a video
  that has an owner: \<^verbatim>\<open>req.user?._id.toString()\<close> is \<^verbatim>\<open>undefined\<close> when there is no
  acting user, and differs from every string.\<close>

definition not_owner :: "objectid \<Rightarrow> objectid option \<Rightarrow> bool" where
  "not_owner ow u = (case u of None \<Rightarrow> True | Some i \<Rightarrow> ow \<noteq> i)"

text \<open>\<^verbatim>\<open>String.prototype.trim\<close>, on strings of 8-bit code units: the white space and line
  terminators of that range are removed from both ends.\<close>

definition js_whitespace :: "char \<Rightarrow> bool" where
  "js_whitespace c = ((of_char c :: nat) \<in> set [9, 10, 11, 12, 13, 32, 160])"

definition trim :: "string \<Rightarrow> string" where
  "trim s = rev (dropWhile js_whitespace (rev (dropWhile js_whitespace s)))"

text \<open>\<^verbatim>\<open>parseInt(s, 10)\<close>: leading white space is skipped, a sign is read, then the longest
  run of decimal digits; \<open>None\<close> is \<^verbatim>\<open>NaN\<close>.\<close>

definition is_digit :: "char \<Rightarrow> bool" where
  "is_digit c = (48 \<le> (of_char c :: nat) \<and> (of_char c :: nat) \<le> 57)"

definition digits_value :: "string \<Rightarrow> nat" where
  "digits_value ds = foldl (\<lambda>acc c. acc * 10 + (of_char c - 48)) 0 ds"

definition parseInt :: "string \<Rightarrow> int option" where
  "parseInt s =
     (let s1 = dropWhile js_whitespace s;
          neg = (case s1 of [] \<Rightarrow> False | c # r \<Rightarrow> c = CHR ''-'');
          s2 = (case s1 of [] \<Rightarrow> [] | c # r \<Rightarrow> if c = CHR ''-'' \<or> c = CHR ''+'' then r else s1);
          ds = takeWhile is_digit s2
      in if ds = [] then None
         else Some (if neg then - int (digits_value ds) else int (digits_value ds)))"

subsection \<open>Running a pipeline, and the page of its results\<close>

fun run_stage :: "env \<Rightarrow> world \<Rightarrow> stage \<Rightarrow> agg_doc list \<Rightarrow> agg_doc list" where
  "run_stage e w (Search q) ds = search_index e q ds"
| "run_stage e w (MatchOwner i) ds = filter (\<lambda>d. owner (doc d) = Some i) ds"
| "run_stage e w (MatchIsPublished b) ds = filter (\<lambda>d. isPublished (doc d) = b) ds"
| "run_stage e w (Sort f dir) ds = sort_by (doc_le f dir) ds"
| "run_stage e w LookupOwnerDetails ds =
     map (\<lambda>d. d\<lparr>ownerDetails := lookup_owner (users w) (owner (doc d))\<rparr>) ds"
| "run_stage e w UnwindOwnerDetails ds =
     concat (map (\<lambda>d. map (\<lambda>x. d\<lparr>ownerDetails := [x]\<rparr>) (ownerDetails d)) ds)"

definition Video_aggregate :: "env \<Rightarrow> world \<Rightarrow> stage list \<Rightarrow> agg_doc list" where
  "Video_aggregate e w pipeline =
     foldl (\<lambda>ds st. run_stage e w st ds)
       (map (\<lambda>(k, v). \<lparr>doc_id = k, doc = v, ownerDetails = []\<rparr>) (videos w)) pipeline"

text \<open>
  Modelled from the spec: the pagination plugin behind \<^verbatim>\<open>Video.aggregatePaginate\<close> is a
  dependency of the Video model, which is not among the sources. The spec (section 6) gives
  a helper that returns one page of the aggregation's results with the page number, the
  number of pages and the number of results. A limit that is not a positive number is
  replaced by 10, a page that is not a number or is 0 by 1, a negative page by its absolute
  value.
\<close>

record page_result =
  docs :: "agg_doc list"
  totalDocs :: nat
  limit :: nat
  page :: nat
  totalPages :: nat

definition Video_aggregatePaginate ::
    "env \<Rightarrow> stage list \<Rightarrow> int option \<Rightarrow> int option \<Rightarrow> page_result io" where
  "Video_aggregatePaginate e pipeline pg lim w =
     (let results = Video_aggregate e w pipeline;
          l = (case lim of None \<Rightarrow> 10 | Some n \<Rightarrow> if 0 < n then nat n else 10);
          p = (case pg of None \<Rightarrow> 1 | Some n \<Rightarrow> if n = 0 then 1 else nat \<bar>n\<bar>)
      in (Inr \<lparr>docs = take l (drop ((p - 1) * l) results),
               totalDocs = length results,
               limit = l,
               page = p,
               totalPages = (length results + l - 1) div l\<rparr>,
          log_call VideoAggregatePaginate w))"

subsection \<open>getAllVideos\<close>

definition search_stage :: "string option \<Rightarrow> stage list" where
  "search_stage query = (case query of None \<Rightarrow> [] | Some q \<Rightarrow> if q = [] then [] else [Search q])"

definition owner_stage :: "idarg option \<Rightarrow> error + stage list" where
  "owner_stage userId =
     (case userId of
        None \<Rightarrow> Inr []
      | Some NotAnId \<Rightarrow> Inl (ApiError 400 ''Invalid userId'')
      | Some (ObjectIdOf i) \<Rightarrow> Inr [MatchOwner i])"

definition sort_stage :: "string option \<Rightarrow> string option \<Rightarrow> stage" where
  "sort_stage sortBy sortType =
     (case sortBy of
        None \<Rightarrow> Sort ''createdAt'' (- 1)
      | Some f \<Rightarrow>
          if f \<noteq> [] \<and> truthy sortType
          then Sort f (if sortType = Some ''asc'' then 1 else - 1)
          else Sort ''createdAt'' (- 1))"

definition getAllVideos :: "env \<Rightarrow> request \<Rightarrow> page_result response io" where
  "getAllVideos e req =
     (let options_page = (case query_page req of None \<Rightarrow> Some 1 | Some s \<Rightarrow> parseInt s);
          options_limit = (case query_limit req of None \<Rightarrow> Some 10 | Some s \<Rightarrow> parseInt s)
      in case owner_stage (query_userId req) of
           Inl err \<Rightarrow> throw err
         | Inr ownerStage \<Rightarrow>
             await (Video_aggregatePaginate e
                      (search_stage (query_query req) @ ownerStage @ [MatchIsPublished True]
                         @ [sort_stage (query_sortBy req) (query_sortType req)]
                         @ [LookupOwnerDetails, UnwindOwnerDetails])
                      options_page options_limit) (\<lambda>video.
             respond (ApiResponse 200 video ''Videos fetched successfully'')))"

subsection \<open>publishAVideo\<close>

text \<open>\<^verbatim>\<open>[title, description].some((field) => field?.trim() === "")\<close>: for an absent field
  \<^verbatim>\<open>field?.trim()\<close> is \<^verbatim>\<open>undefined\<close>, which is not \<^verbatim>\<open>""\<close>.\<close>

definition blank :: "string option \<Rightarrow> bool" where
  "blank field = (case field of None \<Rightarrow> False | Some s \<Rightarrow> trim s = [])"

text \<open>\<^verbatim>\<open>xs[0].path\<close> for a field \<^verbatim>\<open>xs\<close> of \<^verbatim>\<open>req.files\<close>: reading index 0 of
  \<^verbatim>\<open>undefined\<close>, or \<^verbatim>\<open>path\<close> of the \<^verbatim>\<open>undefined\<close> first element of an empty array,
  throws.\<close>

fun first_path :: "upload_file list option \<Rightarrow> error + string option" where
  "first_path None = Inl (TypeError ''Cannot read properties of undefined (reading 0)'')"
| "first_path (Some []) = Inl (TypeError ''Cannot read properties of undefined (reading path)'')"
| "first_path (Some (f # fs)) = Inr (path f)"

text \<open>
  Modelled from the spec: the Video schema is not among the sources. The spec (sections 3
  and 4.2) has title and description required, the view count starting at 0, and the
  creation time stamped on the record. A document to be created without a title or a
  description is rejected by validation and nothing is stored.
\<close>

definition fresh_id :: "(objectid \<times> 'd) list \<Rightarrow> objectid" where
  "fresh_id al = Suc (foldr max (map fst al) 0)"

definition Video_create ::
    "string option \<Rightarrow> string option \<Rightarrow> int option \<Rightarrow> media \<Rightarrow> media \<Rightarrow> objectid option \<Rightarrow> bool
       \<Rightarrow> (objectid \<times> video) io" where
  "Video_create t d dur vf th ow pub w =
     (case (truthy_value t, truthy_value d) of
        (Some t', Some d') \<Rightarrow>
          (let i = fresh_id (videos w);
               v = \<lparr>title = t', description = d', duration = dur, videoFile = vf,
                    thumbnail = th, views = 0, isPublished = pub, owner = ow,
                    createdAt = clock w\<rparr>
           in (Inr (i, v), log_call VideoCreate (w\<lparr>videos := videos w @ [(i, v)]\<rparr>)))
      | _ \<Rightarrow> (Inl (ValidationError ''Video validation failed''), log_call VideoCreate w))"

text \<open>Lines 95 and 96: both paths are read before either is checked. With no
  \<^verbatim>\<open>req.files\<close> the optional chain makes both \<^verbatim>\<open>undefined\<close>.\<close>

definition local_paths :: "upload_files option \<Rightarrow> error + string option \<times> string option" where
  "local_paths fs =
     (case fs of
        None \<Rightarrow> Inr (None, None)
      | Some f \<Rightarrow>
          (case first_path (files_videoFile f) of
             Inl err \<Rightarrow> Inl err
           | Inr videoFileLocalPath \<Rightarrow>
               (case first_path (files_thumbnail f) of
                  Inl err \<Rightarrow> Inl err
                | Inr thumbnailLocalPath \<Rightarrow> Inr (videoFileLocalPath, thumbnailLocalPath))))"

definition publishAVideo :: "env \<Rightarrow> request \<Rightarrow> (objectid \<times> video) response io" where
  "publishAVideo e req =
     (if list_ex blank [body_title req, body_description req]
      then throw (ApiError 400 ''All fields are required'')
      else
        (case local_paths (req_files req) of
           Inl err \<Rightarrow> throw err
         | Inr (videoFileLocalPath, thumbnailLocalPath) \<Rightarrow>
        (case truthy_value videoFileLocalPath of
           None \<Rightarrow> throw (ApiError 400 ''video file local path is required'')
         | Some videoPath \<Rightarrow>
        (case truthy_value thumbnailLocalPath of
           None \<Rightarrow> throw (ApiError 400 ''thumbnail local path is required'')
         | Some thumbnailPath \<Rightarrow>
             await (uploadOnCloudinary e videoPath) (\<lambda>videoFile.
             await (uploadOnCloudinary e thumbnailPath) (\<lambda>thumbnail.
             (case videoFile of
                None \<Rightarrow> throw (ApiError 400 ''video not found'')
              | Some vf \<Rightarrow>
             (case thumbnail of
                None \<Rightarrow> throw (ApiError 400 ''thumbnail not found'')
              | Some th \<Rightarrow>
                  await (Video_create (body_title req) (body_description req) (up_duration vf)
                           \<lparr>url = up_url vf, public_id = up_public_id vf\<rparr>
                           \<lparr>url = up_url th, public_id = up_public_id th\<rparr>
                           (user_id req) False) (\<lambda>video.
                  await (Video_findById (fst video)) (\<lambda>videoUploaded.
                  (case videoUploaded of
                     None \<Rightarrow> throw (ApiError 500 ''video upload failed'')
                   | Some u \<Rightarrow>
                       respond (ApiResponse 200 video ''Video uploaded successfully''))))))))))))"

subsection \<open>getVideoById\<close>

text \<open>The document the aggregation of \<^verbatim>\<open>getVideoById\<close> projects: the video's fields, the
  owner (the first joined user, absent when none is joined) with the number of subscribers
  and whether the acting user is one of them, the number of likes and whether the acting
  user is among the likers.\<close>

record owner_view =
  ov_id :: objectid
  ov_username :: string
  ov_avatar_url :: string
  subscribersCount :: nat
  isSubscribed :: bool

record video_view =
  vv_id :: objectid
  vv_videoFile_url :: string
  vv_title :: string
  vv_description :: string
  vv_views :: int
  vv_createdAt :: nat
  vv_duration :: "int option"
  vv_owner :: "owner_view option"
  likesCount :: nat
  isLiked :: bool

definition owner_views :: "world \<Rightarrow> objectid \<Rightarrow> objectid option \<Rightarrow> owner_view list" where
  "owner_views w uid ow =
     (case ow of
        None \<Rightarrow> []
      | Some i \<Rightarrow>
          map (\<lambda>(k, u).
                 (let subscribers = filter (\<lambda>s. channel s = k) (subscriptions w)
                  in \<lparr>ov_id = k, ov_username = username u, ov_avatar_url = avatar_url u,
                      subscribersCount = length subscribers,
                      isSubscribed = (uid \<in> set (map subscriber subscribers))\<rparr>))
            (filter (\<lambda>(k, u). k = i) (users w)))"

definition video_view :: "world \<Rightarrow> objectid \<Rightarrow> objectid \<times> video \<Rightarrow> video_view" where
  "video_view w uid kv =
     (let ls = filter (\<lambda>l. like_video l = fst kv) (likes w);
          os = owner_views w uid (owner (snd kv))
      in \<lparr>vv_id = fst kv, vv_videoFile_url = url (videoFile (snd kv)),
          vv_title = title (snd kv), vv_description = description (snd kv),
          vv_views = views (snd kv), vv_createdAt = createdAt (snd kv),
          vv_duration = duration (snd kv),
          vv_owner = (case os of [] \<Rightarrow> None | x # xs \<Rightarrow> Some x),
          likesCount = length ls,
          isLiked = (uid \<in> set (map likedBy ls))\<rparr>)"

definition video_views :: "world \<Rightarrow> objectid \<Rightarrow> objectid \<Rightarrow> video_view list" where
  "video_views w videoId uid =
     map (video_view w uid) (filter (\<lambda>(k, v). k = videoId) (videos w))"

definition Video_aggregate_detail :: "objectid \<Rightarrow> objectid \<Rightarrow> video_view list io" where
  "Video_aggregate_detail videoId uid w =
     (Inr (video_views w videoId uid), log_call (VideoAggregate videoId) w)"

text \<open>An array is an object, and every object is truthy, the empty array included.\<close>

definition array_truthy :: "'a list \<Rightarrow> bool" where
  "array_truthy xs = True"

text \<open>\<^verbatim>\<open>video[0]\<close>: \<^verbatim>\<open>undefined\<close> for the empty array.\<close>

definition first_element :: "'a list \<Rightarrow> 'a option" where
  "first_element xs = (case xs of [] \<Rightarrow> None | x # r \<Rightarrow> Some x)"

text \<open>\<^verbatim>\<open>isValidObjectId(req.user?._id)\<close>: with no acting user the argument is
  \<^verbatim>\<open>undefined\<close>, which is not a valid identifier (spec, section 4.3); the identifier of an
  authenticated user is one.\<close>

definition getVideoById :: "request \<Rightarrow> video_view option response io" where
  "getVideoById req =
     (case params_videoId req of
        NotAnId \<Rightarrow> throw (ApiError 400 ''Invalid videoId'')
      | ObjectIdOf videoId \<Rightarrow>
     (case user_id req of
        None \<Rightarrow> throw (ApiError 400 ''Invalid userId'')
      | Some uid \<Rightarrow>
          await (Video_aggregate_detail videoId uid) (\<lambda>video.
          if \<not> array_truthy video
          then throw (ApiError 500 ''failed to fetch video'')
          else
            await (Video_findByIdAndUpdate videoId (inc_views 1)) (\<lambda>_.
            await (User_findByIdAndUpdate uid
                     (\<lambda>u. u\<lparr>watchHistory := addToSet videoId (watchHistory u)\<rparr>)) (\<lambda>_.
            respond (ApiResponse 200 (first_element video)
                       ''video details fetched successfully''))))))"

subsection \<open>updateVideo\<close>

text \<open>\<^verbatim>\<open>updateVideo\<close> in the two conditions after the update (lines 306 and 309) is the
  handler itself, not the \<^verbatim>\<open>updatedVideo\<close> the update returned: a function object, truthy
  whatever the update returned.\<close>

definition updateVideo_truthy :: bool where
  "updateVideo_truthy = True"

definition updateVideo :: "env \<Rightarrow> request \<Rightarrow> video option response io" where
  "updateVideo e req =
     (case params_videoId req of
        NotAnId \<Rightarrow> throw (ApiError 400 ''Invalid videoId'')
      | ObjectIdOf videoId \<Rightarrow>
     (case (truthy_value (body_title req), truthy_value (body_description req)) of
        (Some title', Some description') \<Rightarrow>
          await (Video_findById videoId) (\<lambda>found.
          (case found of
             None \<Rightarrow> throw (ApiError 400 ''video not found'')
           | Some video \<Rightarrow>
          (case owner video of
             None \<Rightarrow> throw (TypeError ''Cannot read properties of undefined (reading toString)'')
           | Some ow \<Rightarrow>
               if not_owner ow (user_id req)
               then throw (ApiError 403 ''you are not authorized to update this video'')
               else
                 (let thumbnailToDelete = public_id (thumbnail video) in
                  (case truthy_value (case req_file req of None \<Rightarrow> None | Some f \<Rightarrow> path f) of
                     None \<Rightarrow> throw (ApiError 400 ''thumbnail is required'')
                   | Some thumbnailLocalPath \<Rightarrow>
                       await (uploadOnCloudinary e thumbnailLocalPath) (\<lambda>uploadedThumbnail.
                       (case uploadedThumbnail of
                          None \<Rightarrow> throw (ApiError 400 ''thumbnail not found'')
                        | Some th \<Rightarrow>
                            await (Video_findByIdAndUpdate videoId
                                     (\<lambda>d. d\<lparr>title := title', description := description',
                                             thumbnail := \<lparr>url = up_url th,
                                                           public_id = up_public_id th\<rparr>\<rparr>))
                              (\<lambda>updatedVideo.
                            if \<not> updateVideo_truthy
                            then throw (ApiError 500 ''failed to update video'')
                            else
                              await (if updateVideo_truthy
                                     then deleteOnCloudinary e thumbnailToDelete
                                     else respond True) (\<lambda>_.
                              respond (ApiResponse 200 updatedVideo
                                         ''video updated successfully''))))))))))
      | _ \<Rightarrow> throw (ApiError 400 ''title and description are required'')))"

subsection \<open>deleteVideo\<close>

definition deleteVideo :: "env \<Rightarrow> request \<Rightarrow> unit response io" where
  "deleteVideo e req =
     (case params_videoId req of
        NotAnId \<Rightarrow> throw (ApiError 400 ''Invalid videoId'')
      | ObjectIdOf videoId \<Rightarrow>
          await (Video_findById videoId) (\<lambda>found.
          (case found of
             None \<Rightarrow> throw (ApiError 400 ''video not found'')
           | Some video \<Rightarrow>
          (case owner video of
             None \<Rightarrow> throw (TypeError ''Cannot read properties of undefined (reading toString)'')
           | Some ow \<Rightarrow>
               if not_owner ow (user_id req)
               then throw (ApiError 403 ''you are not authorized to delete this video'')
               else
                 await (Video_findByIdAndDelete videoId) (\<lambda>videoDeleted.
                 (case videoDeleted of
                    None \<Rightarrow> throw (ApiError 500 ''failed to delete video'')
                  | Some gone \<Rightarrow>
                      await (deleteOnCloudinary e (public_id (thumbnail video))) (\<lambda>_.
                      await (deleteOnCloudinary e (public_id (videoFile video))) (\<lambda>_.
                      await (Like_deleteMany videoId) (\<lambda>_.
                      await (Comment_deleteMany videoId) (\<lambda>_.
                      respond (ApiResponse 200 () ''video deleted successfully'')))))))))))"

subsection \<open>togglePublishStatus\<close>

definition togglePublishStatus :: "request \<Rightarrow> bool response io" where
  "togglePublishStatus req =
     (case params_videoId req of
        NotAnId \<Rightarrow> throw (ApiError 400 ''Invalid videoId'')
      | ObjectIdOf videoId \<Rightarrow>
          await (Video_findById videoId) (\<lambda>found.
          (case found of
             None \<Rightarrow> throw (ApiError 404 ''Video not found'')
           | Some video \<Rightarrow>
          (case owner video of
             None \<Rightarrow> throw (TypeError ''Cannot read properties of undefined (reading toString)'')
           | Some ow \<Rightarrow>
               if not_owner ow (user_id req)
               then throw (ApiError 403 ''You are not authorized to update this video'')
               else
                 await (Video_findByIdAndUpdate videoId
                          (\<lambda>d. d\<lparr>isPublished := \<not> isPublished video\<rparr>)) (\<lambda>toggledVideoPublish.
                 (case toggledVideoPublish of
                    None \<Rightarrow> throw (ApiError 500 ''Failed to toogle video publish status'')
                  | Some t \<Rightarrow>
                      respond (ApiResponse 200 (isPublished t)
                                 ''Video publish toggled successfully'')))))))"

section \<open>A sample world\<close>

text \<open>Two users, a published and an unpublished video of the first user, a like and a
  comment on each, one subscription, and the four stored assets; on it the theorems below
  are instantiated.\<close>

definition alice :: user where
  "alice = \<lparr>username = ''alice'', avatar_url = ''https://cdn.example/alice.png'', watchHistory = []\<rparr>"

definition bob :: user where
  "bob = \<lparr>username = ''bob'', avatar_url = ''https://cdn.example/bob.png'', watchHistory = [2]\<rparr>"

definition intro_video :: video where
  "intro_video =
     \<lparr>title = ''intro'', description = ''first upload'', duration = Some 12,
      videoFile = \<lparr>url = ''https://cdn.example/v1.mp4'', public_id = ''v1''\<rparr>,
      thumbnail = \<lparr>url = ''https://cdn.example/t1.png'', public_id = ''t1''\<rparr>,
      views = 5, isPublished = True, owner = Some 7, createdAt = 100\<rparr>"

definition draft_video :: video where
  "draft_video =
     \<lparr>title = ''draft'', description = ''not yet public'', duration = Some 30,
      videoFile = \<lparr>url = ''https://cdn.example/v2.mp4'', public_id = ''v2''\<rparr>,
      thumbnail = \<lparr>url = ''https://cdn.example/t2.png'', public_id = ''t2''\<rparr>,
      views = 0, isPublished = False, owner = Some 7, createdAt = 200\<rparr>"

definition world0 :: world where
  "world0 =
     \<lparr>videos = [(1, intro_video), (2, draft_video)],
      users = [(7, alice), (8, bob)],
      likes = [\<lparr>like_video = 1, likedBy = 8\<rparr>, \<lparr>like_video = 2, likedBy = 8\<rparr>],
      comments = [\<lparr>comment_video = 1, content = ''nice''\<rparr>, \<lparr>comment_video = 2, content = ''soon''\<rparr>],
      subscriptions = [\<lparr>channel = 7, subscriber = 8\<rparr>],
      assets = [''v1'', ''t1'', ''v2'', ''t2''],
      clock = 300,
      trace = []\<rparr>"

definition env0 :: env where
  "env0 =
     \<lparr>search_index = (\<lambda>q ds. ds),
      cloud_upload = (\<lambda>stored p. Some \<lparr>up_url = ''https://cdn.example/'' @ p,
                                         up_public_id = ''asset-'' @ p, up_duration = Some 9\<rparr>),
      cloud_destroy = (\<lambda>stored pid. True),
      meanwhile = (\<lambda>w. w)\<rparr>"

definition request0 :: request where
  "request0 =
     \<lparr>query_page = None, query_limit = None, query_query = None, query_sortBy = None,
      query_sortType = None, query_userId = None, body_title = None, body_description = None,
      params_videoId = NotAnId, user_id = None, req_files = None, req_file = None\<rparr>"

text \<open>The same environment, with the owner's own delete request for video 1 served to
  completion while a handler awaits an upload.\<close>

definition racing_env :: env where
  "racing_env =
     env0\<lparr>meanwhile :=
       (\<lambda>w. snd (deleteVideo env0 (request0\<lparr>params_videoId := ObjectIdOf 1, user_id := Some 7\<rparr>) w))\<rparr>"

text \<open>The same environment, with a storage provider whose delete fails.\<close>

definition refusing_env :: env where
  "refusing_env = env0\<lparr>cloud_destroy := (\<lambda>stored pid. False)\<rparr>"

text \<open>Every document of a list carries \<^verbatim>\<open>isPublished = true\<close>.\<close>

definition published :: "agg_doc list \<Rightarrow> bool" where
  "published ds = list_all (\<lambda>d. isPublished (doc d)) ds"

section \<open>Properties\<close>

lemmas io_defs = await_def respond_def throw_def log_call_def

lemmas demo_defs = alice_def bob_def intro_video_def draft_video_def world0_def env0_def request0_def

lemmas db_defs = Video_findById_def Video_findByIdAndUpdate_def Video_findByIdAndDelete_def
  User_findByIdAndUpdate_def Like_deleteMany_def Comment_deleteMany_def deleteOnCloudinary_def
  remove_asset_def

lemma map_of_update_doc:
  "map_of (update_doc k f al) k' = (if k' = k then map_option f (map_of al k) else map_of al k')"
  by (induction al) (auto simp: update_doc_def)

lemma not_owner_iff: "not_owner ow u \<longleftrightarrow> u \<noteq> Some ow"
  by (auto simp: not_owner_def split: option.splits)

lemma map_of_delete_doc:
  "map_of (delete_doc k al) k' = (if k' = k then None else map_of al k')"
  by (induction al) (auto simp: delete_doc_def)

subsection \<open>The list holds published videos only\<close>

lemma set_insort_by: "set (insort_by le x xs) = insert x (set xs)"
  by (induction xs) auto

lemma set_sort_by: "set (sort_by le xs) = set xs"
  by (induction xs) (simp_all add: sort_by_def set_insort_by)

lemma published_match: "published (run_stage e w (MatchIsPublished True) ds)"
  by (simp add: published_def list_all_iff)

lemma published_sort: "published ds \<Longrightarrow> published (run_stage e w (Sort f dir) ds)"
  by (simp add: published_def list_all_iff set_sort_by)

lemma published_lookup: "published ds \<Longrightarrow> published (run_stage e w LookupOwnerDetails ds)"
  by (simp add: published_def list_all_iff)

lemma published_unwind: "published ds \<Longrightarrow> published (run_stage e w UnwindOwnerDetails ds)"
  by (auto simp: published_def list_all_iff)

lemma sort_stage_is_Sort: "\<exists>f dir. sort_stage a b = Sort f dir"
  by (simp add: sort_stage_def split: option.splits)

lemma published_pipeline:
  "published (Video_aggregate e w
     (pre @ [MatchIsPublished True] @ [sort_stage a b] @ [LookupOwnerDetails, UnwindOwnerDetails]))"
proof -
  obtain f dir where s: "sort_stage a b = Sort f dir"
    using sort_stage_is_Sort by blast
  show ?thesis
    unfolding Video_aggregate_def s foldl_append
    by (simp del: run_stage.simps
        add: published_unwind published_lookup published_sort published_match)
qed

lemma published_page: "published ds \<Longrightarrow> published (take n (drop m ds))"
  by (auto simp: published_def list_all_iff dest: in_set_takeD in_set_dropD)

text \<open>
  C1. Whatever the query, the owner filter, the sort and the pagination parameters, and
  whatever the search index returns, every video of a page returned by
  \<^verbatim>\<open>getAllVideos\<close> has \<^verbatim>\<open>isPublished = true\<close>.
\<close>

theorem getAllVideos_only_published:
  assumes "getAllVideos e r w = (Inr resp, w')"
  shows "\<forall>d \<in> set (docs (data resp)). isPublished (doc d)"
proof (cases "owner_stage (query_userId r)")
  case (Inl err)
  with assms show ?thesis
    by (simp add: getAllVideos_def throw_def Let_def)
next
  case (Inr ownerStage)
  let ?pipe = "(search_stage (query_query r) @ ownerStage) @ [MatchIsPublished True]
       @ [sort_stage (query_sortBy r) (query_sortType r)] @ [LookupOwnerDetails, UnwindOwnerDetails]"
  have "published (Video_aggregate e w ?pipe)"
    by (rule published_pipeline)
  then have "published (docs (data resp))"
    using assms Inr
    by (auto simp: getAllVideos_def io_defs Let_def Video_aggregatePaginate_def ApiResponse_def
        intro: published_page)
  then show ?thesis
    by (simp add: published_def list_all_iff)
qed

theorem getAllVideos_only_published_witness:
  "getAllVideos env0 (request0\<lparr>query_sortBy := Some ''views'', query_sortType := Some ''asc''\<rparr>) world0
     = (Inr (ApiResponse 200
          \<lparr>docs = [\<lparr>doc_id = 1, doc = intro_video,
                    ownerDetails = [\<lparr>od_id = 7, od_username = ''alice'',
                                     od_avatar_url = ''https://cdn.example/alice.png''\<rparr>]\<rparr>],
           totalDocs = 1, limit = 10, page = 1, totalPages = 1\<rparr>
          ''Videos fetched successfully''),
        log_call VideoAggregatePaginate world0)
   \<and> list_all (\<lambda>d. isPublished (doc d))
        [\<lparr>doc_id = 1, doc = intro_video,
          ownerDetails = [\<lparr>od_id = 7, od_username = ''alice'',
                           od_avatar_url = ''https://cdn.example/alice.png''\<rparr>]\<rparr>]"
proof -
  have run: "getAllVideos env0 (request0\<lparr>query_sortBy := Some ''views'', query_sortType := Some ''asc''\<rparr>) world0
     = (Inr (ApiResponse 200
          \<lparr>docs = [\<lparr>doc_id = 1, doc = intro_video,
                    ownerDetails = [\<lparr>od_id = 7, od_username = ''alice'',
                                     od_avatar_url = ''https://cdn.example/alice.png''\<rparr>]\<rparr>],
           totalDocs = 1, limit = 10, page = 1, totalPages = 1\<rparr>
          ''Videos fetched successfully''),
        log_call VideoAggregatePaginate world0)"
    by (simp add: getAllVideos_def io_defs demo_defs owner_stage_def search_stage_def
        sort_stage_def Video_aggregatePaginate_def Video_aggregate_def sort_by_def doc_le_def
        field_key_def lookup_owner_def ApiResponse_def)
  from getAllVideos_only_published [OF run] show ?thesis
    using run by (simp add: ApiResponse_def)
qed


subsection \<open>The publish toggle\<close>

text \<open>The requests that succeed: the video exists and the acting user is its owner.\<close>

lemma togglePublishStatus_succeeds_iff:
  "(\<exists>resp. fst (togglePublishStatus r w) = Inr resp) \<longleftrightarrow>
   (\<exists>vid v u. params_videoId r = ObjectIdOf vid \<and> map_of (videos w) vid = Some v
      \<and> owner v = Some u \<and> user_id r = Some u)"
  by (auto simp: togglePublishStatus_def io_defs db_defs not_owner_iff map_of_update_doc
      split: idarg.splits option.splits if_splits)

text \<open>
  C9. A successful \<^verbatim>\<open>togglePublishStatus\<close> (the video exists and the acting user owns it)
  stores the negation of the \<^verbatim>\<open>isPublished\<close> it read and answers with that new flag
  alone; a second toggle answers with the original flag and restores the original record.
\<close>

theorem togglePublishStatus_involution:
  assumes "params_videoId r = ObjectIdOf vid"
    and "map_of (videos w) vid = Some v"
    and "owner v = Some u"
    and "user_id r = Some u"
  shows "fst (togglePublishStatus r w)
           = Inr (ApiResponse 200 (\<not> isPublished v) ''Video publish toggled successfully'')
       \<and> map_of (videos (snd (togglePublishStatus r w))) vid
           = Some (v\<lparr>isPublished := \<not> isPublished v\<rparr>)
       \<and> fst (togglePublishStatus r (snd (togglePublishStatus r w)))
           = Inr (ApiResponse 200 (isPublished v) ''Video publish toggled successfully'')
       \<and> map_of (videos (snd (togglePublishStatus r (snd (togglePublishStatus r w))))) vid
           = Some v"
  using assms
  by (simp add: togglePublishStatus_def io_defs Video_findById_def Video_findByIdAndUpdate_def
      not_owner_def map_of_update_doc)

theorem togglePublishStatus_involution_witness:
  "fst (togglePublishStatus (request0\<lparr>params_videoId := ObjectIdOf 2, user_id := Some 7\<rparr>) world0)
     = Inr (ApiResponse 200 True ''Video publish toggled successfully'')
   \<and> map_of (videos (snd (togglePublishStatus
         (request0\<lparr>params_videoId := ObjectIdOf 2, user_id := Some 7\<rparr>) world0))) 2
     = Some (draft_video\<lparr>isPublished := True\<rparr>)
   \<and> fst (togglePublishStatus (request0\<lparr>params_videoId := ObjectIdOf 2, user_id := Some 7\<rparr>)
         (snd (togglePublishStatus (request0\<lparr>params_videoId := ObjectIdOf 2, user_id := Some 7\<rparr>) world0)))
     = Inr (ApiResponse 200 False ''Video publish toggled successfully'')
   \<and> map_of (videos (snd (togglePublishStatus (request0\<lparr>params_videoId := ObjectIdOf 2, user_id := Some 7\<rparr>)
         (snd (togglePublishStatus (request0\<lparr>params_videoId := ObjectIdOf 2, user_id := Some 7\<rparr>) world0))))) 2
     = Some draft_video"
  using togglePublishStatus_involution
    [of "request0\<lparr>params_videoId := ObjectIdOf 2, user_id := Some 7\<rparr>" 2 world0 draft_video 7]
  by (simp add: demo_defs)

subsection \<open>The detail request\<close>

lemma filter_key_None: "map_of al k = None \<Longrightarrow> filter (\<lambda>(k', d). k' = k) al = []"
  by (induction al) (auto split: if_splits)

lemma update_doc_absent: "map_of al k = None \<Longrightarrow> update_doc k f al = al"
  by (induction al) (auto simp: update_doc_def split: if_splits)

lemma filter_key_Some:
  "map_of al k = Some d \<Longrightarrow> \<exists>r. filter (\<lambda>(k', d). k' = k) al = (k, d) # r"
  by (induction al) (auto split: if_splits)

lemma count_addToSet:
  "count_list (if x \<in> set xs then xs else xs @ [x]) x = max 1 (count_list xs x)"
  using count_list_0_iff [of xs x] by auto

lemma getVideoById_found:
  assumes "params_videoId r = ObjectIdOf vid"
    and "user_id r = Some u"
    and "map_of (videos w) vid = Some v"
  shows "getVideoById r w
      = (Inr (ApiResponse 200 (Some (video_view w u (vid, v))) ''video details fetched successfully''),
         w\<lparr>videos := update_doc vid (inc_views 1) (videos w),
          users := update_doc u (\<lambda>x. x\<lparr>watchHistory := addToSet vid (watchHistory x)\<rparr>) (users w),
          trace := trace w @ [VideoAggregate vid, VideoFindByIdAndUpdate vid, UserFindByIdAndUpdate u]\<rparr>)"
proof -
  obtain rest where "filter (\<lambda>(k', d). k' = vid) (videos w) = (vid, v) # rest"
    using filter_key_Some [OF assms(3)] by blast
  then show ?thesis
    using assms
    by (simp add: getVideoById_def io_defs Video_aggregate_detail_def video_views_def
      array_truthy_def first_element_def Video_findByIdAndUpdate_def
      User_findByIdAndUpdate_def)
qed

text \<open>The requests that succeed: the identifier is well formed and there is an acting
  user. Whether a video is found plays no part.\<close>

lemma getVideoById_succeeds_iff:
  "(\<exists>resp. fst (getVideoById r w) = Inr resp) \<longleftrightarrow>
   (\<exists>vid u. params_videoId r = ObjectIdOf vid \<and> user_id r = Some u)"
  by (auto simp: getVideoById_def io_defs db_defs Video_aggregate_detail_def array_truthy_def
      split: idarg.splits option.splits if_splits)

text \<open>
  C7. A \<^verbatim>\<open>getVideoById\<close> for an existing video \<open>vid\<close> by an existing user \<open>u\<close>
  succeeds, adds exactly 1 to the video's views, and adds \<open>vid\<close> to the user's watch
  history only when it is not there yet. After a second request the views have grown by 2
  and the watch history is what it was after the first: \<open>vid\<close> occurs in it once, unless
  it occurred more often before the first request.
\<close>

theorem getVideoById_counts_view:
  assumes "params_videoId r = ObjectIdOf vid"
    and "user_id r = Some u"
    and "map_of (videos w) vid = Some v"
    and "map_of (users w) u = Some usr"
  shows "fst (getVideoById r w)
            = Inr (ApiResponse 200 (Some (video_view w u (vid, v)))
                ''video details fetched successfully'')
       \<and> map_of (videos (snd (getVideoById r w))) vid = Some (v\<lparr>views := views v + 1\<rparr>)
       \<and> map_of (users (snd (getVideoById r w))) u
            = Some (usr\<lparr>watchHistory :=
                 (if vid \<in> set (watchHistory usr) then watchHistory usr
                  else watchHistory usr @ [vid])\<rparr>)
       \<and> map_of (videos (snd (getVideoById r (snd (getVideoById r w))))) vid
            = Some (v\<lparr>views := views v + 2\<rparr>)
       \<and> map_of (users (snd (getVideoById r (snd (getVideoById r w))))) u
            = Some (usr\<lparr>watchHistory :=
                 (if vid \<in> set (watchHistory usr) then watchHistory usr
                  else watchHistory usr @ [vid])\<rparr>)
       \<and> count_list (if vid \<in> set (watchHistory usr) then watchHistory usr
                      else watchHistory usr @ [vid]) vid
            = max 1 (count_list (watchHistory usr) vid)"
proof -
  let ?w1 = "snd (getVideoById r w)"
  let ?wh = "if vid \<in> set (watchHistory usr) then watchHistory usr else watchHistory usr @ [vid]"
  note first = getVideoById_found [OF assms(1-3)]
  have r1: "fst (getVideoById r w)
      = Inr (ApiResponse 200 (Some (video_view w u (vid, v))) ''video details fetched successfully'')"
    by (simp add: first)
  have v1: "map_of (videos ?w1) vid = Some (v\<lparr>views := views v + 1\<rparr>)"
    using assms(3) by (simp add: first map_of_update_doc inc_views_def)
  have u1: "map_of (users ?w1) u = Some (usr\<lparr>watchHistory := ?wh\<rparr>)"
    using assms(4) by (simp add: first map_of_update_doc addToSet_def)
  note second = getVideoById_found [OF assms(1,2) v1]
  have v2: "map_of (videos (snd (getVideoById r ?w1))) vid = Some (v\<lparr>views := views v + 2\<rparr>)"
    using v1 by (simp add: second map_of_update_doc inc_views_def)
  have u2: "map_of (users (snd (getVideoById r ?w1))) u = Some (usr\<lparr>watchHistory := ?wh\<rparr>)"
    using u1 by (simp add: second map_of_update_doc addToSet_def)
  show ?thesis
    using r1 v1 u1 v2 u2 count_addToSet [of vid "watchHistory usr"] by (intro conjI)
qed

theorem getVideoById_counts_view_witness:
  "fst (getVideoById (request0\<lparr>params_videoId := ObjectIdOf 1, user_id := Some 8\<rparr>) world0)
            = Inr (ApiResponse 200
                (Some \<lparr>vv_id = 1, vv_videoFile_url = ''https://cdn.example/v1.mp4'',
                       vv_title = ''intro'', vv_description = ''first upload'', vv_views = 5,
                       vv_createdAt = 100, vv_duration = Some 12,
                       vv_owner = Some \<lparr>ov_id = 7, ov_username = ''alice'',
                                         ov_avatar_url = ''https://cdn.example/alice.png'',
                                         subscribersCount = 1, isSubscribed = True\<rparr>,
                       likesCount = 1, isLiked = True\<rparr>)
                ''video details fetched successfully'')
       \<and> map_of (videos (snd (getVideoById (request0\<lparr>params_videoId := ObjectIdOf 1, user_id := Some 8\<rparr>) world0))) 1
            = Some (intro_video\<lparr>views := 6\<rparr>)
       \<and> map_of (users (snd (getVideoById (request0\<lparr>params_videoId := ObjectIdOf 1, user_id := Some 8\<rparr>) world0))) 8
            = Some (bob\<lparr>watchHistory := [2, 1]\<rparr>)
       \<and> map_of (videos (snd (getVideoById (request0\<lparr>params_videoId := ObjectIdOf 1, user_id := Some 8\<rparr>)
              (snd (getVideoById (request0\<lparr>params_videoId := ObjectIdOf 1, user_id := Some 8\<rparr>) world0))))) 1
            = Some (intro_video\<lparr>views := 7\<rparr>)
       \<and> map_of (users (snd (getVideoById (request0\<lparr>params_videoId := ObjectIdOf 1, user_id := Some 8\<rparr>)
              (snd (getVideoById (request0\<lparr>params_videoId := ObjectIdOf 1, user_id := Some 8\<rparr>) world0))))) 8
            = Some (bob\<lparr>watchHistory := [2, 1]\<rparr>)
       \<and> count_list [2, 1] (1::nat) = 1"
  using getVideoById_counts_view
    [of "request0\<lparr>params_videoId := ObjectIdOf 1, user_id := Some 8\<rparr>" 1 8 world0 intro_video bob]
  by (simp add: demo_defs video_view_def owner_views_def)

text \<open>
  C10. A \<^verbatim>\<open>getVideoById\<close> for a well-formed identifier \<open>vid\<close> under which there is no
  video still issues the view increment (which finds nothing to update) and the
  \<^verbatim>\<open>$addToSet\<close> on the acting user's watch history, and answers 200 with no data: the
  watch history then holds the identifier of a video that does not exist.
\<close>

theorem getVideoById_missing_video:
  assumes "params_videoId r = ObjectIdOf vid"
    and "user_id r = Some u"
    and "map_of (videos w) vid = None"
    and "map_of (users w) u = Some usr"
  shows "getVideoById r w =
           (Inr (ApiResponse 200 None ''video details fetched successfully''),
            w\<lparr>users := update_doc u (\<lambda>x. x\<lparr>watchHistory := addToSet vid (watchHistory x)\<rparr>) (users w),
              trace := trace w @ [VideoAggregate vid, VideoFindByIdAndUpdate vid, UserFindByIdAndUpdate u]\<rparr>)
       \<and> map_of (videos (snd (getVideoById r w))) vid = None
       \<and> map_of (users (snd (getVideoById r w))) u
            = Some (usr\<lparr>watchHistory := addToSet vid (watchHistory usr)\<rparr>)
       \<and> vid \<in> set (addToSet vid (watchHistory usr))"
  using assms
  by (simp add: getVideoById_def io_defs Video_aggregate_detail_def video_views_def
      filter_key_None array_truthy_def first_element_def Video_findByIdAndUpdate_def
      User_findByIdAndUpdate_def update_doc_absent map_of_update_doc addToSet_def)

theorem getVideoById_missing_video_witness:
  "getVideoById (request0\<lparr>params_videoId := ObjectIdOf 9, user_id := Some 8\<rparr>) world0 =
           (Inr (ApiResponse 200 None ''video details fetched successfully''),
            world0\<lparr>users := [(7, alice), (8, bob\<lparr>watchHistory := [2, 9]\<rparr>)],
              trace := [VideoAggregate 9, VideoFindByIdAndUpdate 9, UserFindByIdAndUpdate 8]\<rparr>)
       \<and> map_of (videos (snd (getVideoById (request0\<lparr>params_videoId := ObjectIdOf 9, user_id := Some 8\<rparr>) world0))) 9 = None
       \<and> map_of (users (snd (getVideoById (request0\<lparr>params_videoId := ObjectIdOf 9, user_id := Some 8\<rparr>) world0))) 8
            = Some (bob\<lparr>watchHistory := [2, 9]\<rparr>)
       \<and> (9::nat) \<in> set [2, 9]"
  using getVideoById_missing_video
    [of "request0\<lparr>params_videoId := ObjectIdOf 9, user_id := Some 8\<rparr>" 9 8 world0 bob]
  by (simp add: demo_defs addToSet_def update_doc_def)


text \<open>
  C3. The claim is that a \<^verbatim>\<open>getVideoById\<close> whose aggregation yields no document fails with
  NotFound or InternalError. The handler's check is \<^verbatim>\<open>if (!video)\<close> on the array the
  aggregation returns, and the empty array is truthy: for the well-formed identifier 9,
  under which the sample world has no video, the aggregation is empty and the handler
  answers 200 with no data, after updating the watch history.
\<close>

theorem getVideoById_no_document_succeeds:
  "video_views world0 9 8 = []
   \<and> getVideoById (request0\<lparr>params_videoId := ObjectIdOf 9, user_id := Some 8\<rparr>) world0
       = (Inr (ApiResponse 200 None ''video details fetched successfully''),
          world0\<lparr>users := [(7, alice), (8, bob\<lparr>watchHistory := [2, 9]\<rparr>)],
            trace := [VideoAggregate 9, VideoFindByIdAndUpdate 9, UserFindByIdAndUpdate 8]\<rparr>)"
  by (simp add: demo_defs getVideoById_def io_defs db_defs Video_aggregate_detail_def
      video_views_def array_truthy_def first_element_def update_doc_def addToSet_def inc_views_def)

subsection \<open>Deleting a video\<close>

text \<open>The requests that succeed: the video exists and the acting user is its owner.\<close>

lemma deleteVideo_succeeds_iff:
  "(\<exists>resp. fst (deleteVideo e r w) = Inr resp) \<longleftrightarrow>
   (\<exists>vid v u. params_videoId r = ObjectIdOf vid \<and> map_of (videos w) vid = Some v
      \<and> owner v = Some u \<and> user_id r = Some u)"
  by (auto simp: deleteVideo_def io_defs db_defs not_owner_iff
      split: idarg.splits option.splits if_splits)

text \<open>
  C8, as amended. A \<^verbatim>\<open>deleteVideo\<close> of an existing video by its owner succeeds. It removes
  the record, then asks the storage provider to delete the thumbnail and the video file,
  then deletes the likes and the comments that reference the video, in this order of
  calls; afterwards the identifier finds no video and no like or comment references the
  video. The handler does not read the outcome of the provider's deletes: an asset whose
  delete succeeds is stored no more, when both deletes fail the stored assets are as
  before, and the answer is 200 in either case.
\<close>

theorem deleteVideo_cascade:
  assumes "params_videoId r = ObjectIdOf vid"
    and "map_of (videos w) vid = Some v"
    and "owner v = Some u"
    and "user_id r = Some u"
  shows "deleteVideo e r w =
           (Inr (ApiResponse 200 () ''video deleted successfully''),
            w\<lparr>videos := delete_doc vid (videos w),
              assets := remove_asset e (public_id (videoFile v))
                          (remove_asset e (public_id (thumbnail v)) (assets w)),
              likes := filter (\<lambda>l. like_video l \<noteq> vid) (likes w),
              comments := filter (\<lambda>c. comment_video c \<noteq> vid) (comments w),
              trace := trace w @
                [VideoFindById vid, VideoFindByIdAndDelete vid,
                 Destroy (public_id (thumbnail v)), Destroy (public_id (videoFile v)),
                 LikeDeleteMany vid, CommentDeleteMany vid]\<rparr>)
       \<and> map_of (videos (snd (deleteVideo e r w))) vid = None
       \<and> vid \<notin> like_video ` set (likes (snd (deleteVideo e r w)))
       \<and> vid \<notin> comment_video ` set (comments (snd (deleteVideo e r w)))
       \<and> (cloud_destroy e (assets w) (public_id (thumbnail v)) \<longrightarrow>
            public_id (thumbnail v) \<notin> set (assets (snd (deleteVideo e r w))))
       \<and> (cloud_destroy e (remove_asset e (public_id (thumbnail v)) (assets w))
              (public_id (videoFile v)) \<longrightarrow>
            public_id (videoFile v) \<notin> set (assets (snd (deleteVideo e r w))))
       \<and> (\<not> cloud_destroy e (assets w) (public_id (thumbnail v))
            \<and> \<not> cloud_destroy e (assets w) (public_id (videoFile v)) \<longrightarrow>
            assets (snd (deleteVideo e r w)) = assets w)"
proof -
  have run: "deleteVideo e r w =
           (Inr (ApiResponse 200 () ''video deleted successfully''),
            w\<lparr>videos := delete_doc vid (videos w),
              assets := remove_asset e (public_id (videoFile v))
                          (remove_asset e (public_id (thumbnail v)) (assets w)),
              likes := filter (\<lambda>l. like_video l \<noteq> vid) (likes w),
              comments := filter (\<lambda>c. comment_video c \<noteq> vid) (comments w),
              trace := trace w @
                [VideoFindById vid, VideoFindByIdAndDelete vid,
                 Destroy (public_id (thumbnail v)), Destroy (public_id (videoFile v)),
                 LikeDeleteMany vid, CommentDeleteMany vid]\<rparr>)"
    using assms
    by (simp add: deleteVideo_def io_defs Video_findById_def Video_findByIdAndDelete_def
        Like_deleteMany_def Comment_deleteMany_def deleteOnCloudinary_def not_owner_def)
  show ?thesis
    unfolding run by (auto simp: map_of_delete_doc remove_asset_def)
qed

theorem deleteVideo_cascade_witness:
  "deleteVideo env0 (request0\<lparr>params_videoId := ObjectIdOf 1, user_id := Some 7\<rparr>) world0 =
           (Inr (ApiResponse 200 () ''video deleted successfully''),
            world0\<lparr>videos := [(2, draft_video)],
              assets := [''v2'', ''t2''],
              likes := [\<lparr>like_video = 2, likedBy = 8\<rparr>],
              comments := [\<lparr>comment_video = 2, content = ''soon''\<rparr>],
              trace := [VideoFindById 1, VideoFindByIdAndDelete 1, Destroy ''t1'', Destroy ''v1'',
                 LikeDeleteMany 1, CommentDeleteMany 1]\<rparr>)
   \<and> map_of (videos (snd (deleteVideo env0
         (request0\<lparr>params_videoId := ObjectIdOf 1, user_id := Some 7\<rparr>) world0))) 1 = None
   \<and> ''t1'' \<notin> set (assets (snd (deleteVideo env0
         (request0\<lparr>params_videoId := ObjectIdOf 1, user_id := Some 7\<rparr>) world0)))
   \<and> ''v1'' \<notin> set (assets (snd (deleteVideo env0
         (request0\<lparr>params_videoId := ObjectIdOf 1, user_id := Some 7\<rparr>) world0)))"
  using deleteVideo_cascade
    [of "request0\<lparr>params_videoId := ObjectIdOf 1, user_id := Some 7\<rparr>" 1 world0 intro_video 7 env0]
  by (simp add: demo_defs delete_doc_def remove_asset_def)

text \<open>
  C8 as stated, that a successful delete deletes both remote assets, does not hold when
  the provider's delete fails: the owner's delete of video 1 is answered 200, the record,
  the like and the comment are gone, both deletes were asked for, and both assets \<open>t1\<close>
  and \<open>v1\<close> are still stored.
\<close>

theorem deleteVideo_assets_kept_on_failed_destroy:
  "deleteVideo refusing_env (request0\<lparr>params_videoId := ObjectIdOf 1, user_id := Some 7\<rparr>) world0 =
           (Inr (ApiResponse 200 () ''video deleted successfully''),
            world0\<lparr>videos := [(2, draft_video)],
              likes := [\<lparr>like_video = 2, likedBy = 8\<rparr>],
              comments := [\<lparr>comment_video = 2, content = ''soon''\<rparr>],
              trace := [VideoFindById 1, VideoFindByIdAndDelete 1, Destroy ''t1'', Destroy ''v1'',
                 LikeDeleteMany 1, CommentDeleteMany 1]\<rparr>)
   \<and> ''t1'' \<in> set (assets (snd (deleteVideo refusing_env
         (request0\<lparr>params_videoId := ObjectIdOf 1, user_id := Some 7\<rparr>) world0)))
   \<and> ''v1'' \<in> set (assets (snd (deleteVideo refusing_env
         (request0\<lparr>params_videoId := ObjectIdOf 1, user_id := Some 7\<rparr>) world0)))"
  by (simp add: demo_defs refusing_env_def deleteVideo_def io_defs db_defs not_owner_def
      delete_doc_def)

subsection \<open>Requests by a user who is not the owner\<close>

text \<open>
  C2, as amended. For an existing video with an owner other than the acting user,
  \<^verbatim>\<open>deleteVideo\<close> and \<^verbatim>\<open>togglePublishStatus\<close> fail with 403, and so does
  \<^verbatim>\<open>updateVideo\<close> when the request carries a non-empty title and a non-empty description;
  without them \<^verbatim>\<open>updateVideo\<close> fails with 400 before it looks the video up. In every case
  the collections and the stored assets are as before: at most the lookup of the video is
  added to the calls made.
\<close>

theorem non_owner_cannot_mutate:
  assumes "params_videoId r = ObjectIdOf vid"
    and "map_of (videos w) vid = Some v"
    and "owner v = Some ow"
    and "user_id r \<noteq> Some ow"
  shows "deleteVideo e r w =
           (Inl (ApiError 403 ''you are not authorized to delete this video''),
            w\<lparr>trace := trace w @ [VideoFindById vid]\<rparr>)
       \<and> togglePublishStatus r w =
           (Inl (ApiError 403 ''You are not authorized to update this video''),
            w\<lparr>trace := trace w @ [VideoFindById vid]\<rparr>)
       \<and> updateVideo e r w =
           (if truthy (body_title r) \<and> truthy (body_description r)
            then (Inl (ApiError 403 ''you are not authorized to update this video''),
                  w\<lparr>trace := trace w @ [VideoFindById vid]\<rparr>)
            else (Inl (ApiError 400 ''title and description are required''), w))"
proof -
  have no: "not_owner ow (user_id r)"
    using assms(4) by (auto simp: not_owner_def split: option.splits)
  have d: "deleteVideo e r w =
           (Inl (ApiError 403 ''you are not authorized to delete this video''),
            w\<lparr>trace := trace w @ [VideoFindById vid]\<rparr>)"
    using assms(1-3) no by (simp add: deleteVideo_def io_defs db_defs)
  have t: "togglePublishStatus r w =
           (Inl (ApiError 403 ''You are not authorized to update this video''),
            w\<lparr>trace := trace w @ [VideoFindById vid]\<rparr>)"
    using assms(1-3) no by (simp add: togglePublishStatus_def io_defs db_defs)
  have u: "updateVideo e r w =
           (if truthy (body_title r) \<and> truthy (body_description r)
            then (Inl (ApiError 403 ''you are not authorized to update this video''),
                  w\<lparr>trace := trace w @ [VideoFindById vid]\<rparr>)
            else (Inl (ApiError 400 ''title and description are required''), w))"
    using assms(1-3) no
    by (cases "body_title r"; cases "body_description r")
       (simp_all add: updateVideo_def io_defs db_defs truthy_value_def)
  from d t u show ?thesis by (intro conjI)
qed

theorem non_owner_cannot_mutate_witness:
  "deleteVideo env0 (request0\<lparr>params_videoId := ObjectIdOf 1, user_id := Some 8,
        body_title := Some ''mine now'', body_description := Some ''taken over''\<rparr>) world0 =
           (Inl (ApiError 403 ''you are not authorized to delete this video''),
            world0\<lparr>trace := [VideoFindById 1]\<rparr>)
       \<and> togglePublishStatus (request0\<lparr>params_videoId := ObjectIdOf 1, user_id := Some 8,
        body_title := Some ''mine now'', body_description := Some ''taken over''\<rparr>) world0 =
           (Inl (ApiError 403 ''You are not authorized to update this video''),
            world0\<lparr>trace := [VideoFindById 1]\<rparr>)
       \<and> updateVideo env0 (request0\<lparr>params_videoId := ObjectIdOf 1, user_id := Some 8,
        body_title := Some ''mine now'', body_description := Some ''taken over''\<rparr>) world0 =
           (Inl (ApiError 403 ''you are not authorized to update this video''),
                  world0\<lparr>trace := [VideoFindById 1]\<rparr>)"
  using non_owner_cannot_mutate
    [of "request0\<lparr>params_videoId := ObjectIdOf 1, user_id := Some 8,
        body_title := Some ''mine now'', body_description := Some ''taken over''\<rparr>" 1 world0 intro_video 7 env0]
  by (simp add: demo_defs)

text \<open>
  C2 as stated, that every such request fails with Forbidden, does not hold of
  \<^verbatim>\<open>updateVideo\<close>: user 8 asking to update video 1 of user 7, with no title and no
  description in the body, is answered 400.
\<close>

theorem updateVideo_non_owner_not_forbidden:
  "map_of (videos world0) 1 = Some intro_video
   \<and> owner intro_video = Some 7
   \<and> user_id (request0\<lparr>params_videoId := ObjectIdOf 1, user_id := Some 8\<rparr>) = Some 8
   \<and> updateVideo env0 (request0\<lparr>params_videoId := ObjectIdOf 1, user_id := Some 8\<rparr>) world0
       = (Inl (ApiError 400 ''title and description are required''), world0)
   \<and> fst (updateVideo env0 (request0\<lparr>params_videoId := ObjectIdOf 1, user_id := Some 8\<rparr>) world0)
       \<noteq> Inl (ApiError 403 ''you are not authorized to update this video'')"
  by (simp add: demo_defs updateVideo_def io_defs truthy_value_def)

subsection \<open>The update of a record that is gone\<close>

text \<open>
  C4. The claim is that an update whose database write returns no record fails with
  InternalError and leaves the old thumbnail's asset alone. The handler tests
  \<^verbatim>\<open>updateVideo\<close>, itself, in place of \<^verbatim>\<open>updatedVideo\<close>. Here the owner (user 7) updates
  video 1 while the delete request for video 1 is served during the upload of the new
  thumbnail: \<^verbatim>\<open>findByIdAndUpdate\<close> finds no record and returns null, the handler still
  calls for the old thumbnail \<open>t1\<close> to be destroyed, and answers 200 with null data.
\<close>

theorem updateVideo_failed_write_not_detected:
  "updateVideo racing_env
     (request0\<lparr>params_videoId := ObjectIdOf 1, user_id := Some 7,
        body_title := Some ''new title'', body_description := Some ''new text'',
        req_file := Some \<lparr>path = Some ''tmp/new.png''\<rparr>\<rparr>) world0
   = (Inr (ApiResponse 200 None ''video updated successfully''),
      world0\<lparr>videos := [(2, draft_video)],
        likes := [\<lparr>like_video = 2, likedBy = 8\<rparr>],
        comments := [\<lparr>comment_video = 2, content = ''soon''\<rparr>],
        assets := [''v2'', ''t2'', ''asset-tmp/new.png''],
        trace := [VideoFindById 1, Upload ''tmp/new.png'',
                  VideoFindById 1, VideoFindByIdAndDelete 1, Destroy ''t1'', Destroy ''v1'',
                  LikeDeleteMany 1, CommentDeleteMany 1,
                  VideoFindByIdAndUpdate 1, Destroy ''t1'']\<rparr>)"
  by (simp add: demo_defs racing_env_def updateVideo_def deleteVideo_def io_defs db_defs
      truthy_value_def not_owner_def uploadOnCloudinary_def updateVideo_truthy_def
      update_doc_def delete_doc_def)

subsection \<open>Validation in publishAVideo\<close>

text \<open>A title or description that is present and blank after trimming is rejected with
  400 before anything else happens.\<close>

lemma publishAVideo_blank_rejected:
  assumes "body_title r = Some t \<and> trim t = [] \<or> body_description r = Some d \<and> trim d = []"
  shows "publishAVideo e r w = (Inl (ApiError 400 ''All fields are required''), w)"
  using assms by (auto simp: publishAVideo_def blank_def throw_def)


text \<open>
  C5. The claim is that a missing or blank title or description fails with 400 before any
  upload. A missing field passes the check, since \<^verbatim>\<open>undefined?.trim()\<close> is not \<^verbatim>\<open>""\<close>:
  with no title, and both files in the request, both files are uploaded before the
  creation of the record fails.
\<close>

theorem publishAVideo_missing_title_uploads:
  "publishAVideo env0
     (request0\<lparr>body_description := Some ''text'', user_id := Some 7,
        req_files := Some \<lparr>files_videoFile = Some [\<lparr>path = Some ''tmp/v.mp4''\<rparr>],
                            files_thumbnail = Some [\<lparr>path = Some ''tmp/t.png''\<rparr>]\<rparr>\<rparr>) world0
   = (Inl (ValidationError ''Video validation failed''),
      world0\<lparr>assets := [''v1'', ''t1'', ''v2'', ''t2'', ''asset-tmp/v.mp4'', ''asset-tmp/t.png''],
        trace := [Upload ''tmp/v.mp4'', Upload ''tmp/t.png'', VideoCreate]\<rparr>)"
  by (simp add: demo_defs publishAVideo_def blank_def trim_def js_whitespace_def local_paths_def
      truthy_value_def io_defs uploadOnCloudinary_def Video_create_def)

text \<open>
  C6. The claim is that a request without the video file or without the thumbnail fails
  with a 400 ApiError. With \<^verbatim>\<open>req.files\<close> holding the video file only,
  \<^verbatim>\<open>req.files?.thumbnail[0]\<close> reads index 0 of \<^verbatim>\<open>undefined\<close> and a TypeError is thrown
  before the handler's own checks of the paths.
\<close>

theorem publishAVideo_missing_thumbnail_TypeError:
  "publishAVideo env0
     (request0\<lparr>body_title := Some ''title'', body_description := Some ''text'', user_id := Some 7,
        req_files := Some \<lparr>files_videoFile = Some [\<lparr>path = Some ''tmp/v.mp4''\<rparr>],
                            files_thumbnail = None\<rparr>\<rparr>) world0
   = (Inl (TypeError ''Cannot read properties of undefined (reading 0)''), world0)"
  by (simp add: demo_defs publishAVideo_def blank_def trim_def js_whitespace_def local_paths_def io_defs)

end
